theory Spec2Isabelle
  imports
    Main
    "HOL-Library.Char_ord"
    "HOL-Library.List_Lexorder"
    "HOL-Library.Sublist"
    "HOL-Library.Multiset"
begin

section \<open>The journal preview of lanifield.nz (journal-preview.js)\<close>

text \<open>
  The script fetches \<^verbatim>\<open>assets/data/journal.json\<close>, sorts the entries by date, renders the
  three most recent ones as cards and reports failures in a placeholder element.  Each
  function of the script is embedded below under its own name.

  Conventions of the embedding.
  \<^item> A JavaScript string is a \<^typ>\<open>string\<close>: a list of code units, here the code units below
    256.  Comparison of strings is the lexicographic order on code units, as \<^verbatim>\<open><\<close> is in
    JavaScript.
  \<^item> A property of an entry is a JSON string or absent (\<^verbatim>\<open>undefined\<close>), as the header of the
    script and the data model describe entries.  JSON numbers are IEEE doubles; entries
    carrying them are outside the embedding.
  \<^item> An exception is a value: a function that can throw returns \<open>js_error + 'a\<close>.
\<close>

subsection \<open>Values\<close>

datatype jsval = Undefined | Str string

datatype js_error = TypeError | ReferenceError | SyntaxError | Error

text \<open>\<^verbatim>\<open>String(v)\<close>.\<close>

fun toString :: "jsval \<Rightarrow> string" where
  "toString Undefined = ''undefined''"
| "toString (Str s) = s"

text \<open>Truthiness of a value: \<^verbatim>\<open>undefined\<close> and the empty string are falsy.\<close>

fun truthy :: "jsval \<Rightarrow> bool" where
  "truthy Undefined = False"
| "truthy (Str s) = (s \<noteq> [])"

subsection \<open>escapeHtml\<close>

text \<open>
  \<^verbatim>\<open>
  function escapeHtml(str) {
    var map = { '&': '&amp;', '<': '&lt;', '>': '&gt;', '"': '&quot;', "'": '&#39;' };
    return String(str).replace(/[&<>"']/g, function (c) { return map[c]; });
  }
  \<close>
  The object \<open>map\<close> is a finite map; the character class of the regular expression is a
  set of characters.  A global replace with a one-character class visits the code units
  from left to right, copies those outside the class and replaces the others by what the
  callback returns (\<^verbatim>\<open>undefined\<close> would be inserted as the text ``undefined'').
\<close>

definition entity_map :: "char \<rightharpoonup> string" where
  "entity_map =
     [CHR ''&'' \<mapsto> ''&amp;'',
      CHR ''<'' \<mapsto> ''&lt;'',
      CHR ''>'' \<mapsto> ''&gt;'',
      CHR 0x22 \<mapsto> ''&quot;'',
      CHR 0x27 \<mapsto> ''&#39;'']"

definition special :: "char \<Rightarrow> bool" where
  "special c = (c \<in> set [CHR ''&'', CHR ''<'', CHR ''>'', CHR 0x22, CHR 0x27])"

definition callback :: "char \<Rightarrow> string" where
  "callback c = (case entity_map c of Some r \<Rightarrow> r | None \<Rightarrow> ''undefined'')"

fun replace_special :: "string \<Rightarrow> string" where
  "replace_special [] = []"
| "replace_special (c # cs) =
     (if special c then callback c @ replace_special cs else c # replace_special cs)"

definition escapeHtml :: "jsval \<Rightarrow> string" where
  "escapeHtml v = replace_special (toString v)"

text \<open>
  The replacement of one character, entity by entity, and the named character references
  of HTML for the five characters, which the specification asks for.
\<close>

definition entity_of :: "char \<Rightarrow> string" where
  "entity_of c =
     (if c = CHR ''&'' then ''&amp;''
      else if c = CHR ''<'' then ''&lt;''
      else if c = CHR ''>'' then ''&gt;''
      else if c = CHR 0x22 then ''&quot;''
      else if c = CHR 0x27 then ''&#39;''
      else [c])"

definition named_entity :: "char \<Rightarrow> string" where
  "named_entity c =
     (if c = CHR ''&'' then ''&amp;''
      else if c = CHR ''<'' then ''&lt;''
      else if c = CHR ''>'' then ''&gt;''
      else if c = CHR 0x22 then ''&quot;''
      else if c = CHR 0x27 then ''&apos;''
      else [c])"

subsection \<open>Strings of the platform: split, parseInt, numbers as text\<close>

text \<open>\<^verbatim>\<open>s.split(sep)\<close> for a separator of one character; the empty string gives one empty part.\<close>

fun split_on :: "char \<Rightarrow> string \<Rightarrow> string list" where
  "split_on sep [] = [[]]"
| "split_on sep (c # cs) =
     (if c = sep then [] # split_on sep cs
      else (case split_on sep cs of
              [] \<Rightarrow> [[c]]
            | p # ps \<Rightarrow> (c # p) # ps))"

text \<open>
  \<^verbatim>\<open>parseInt(s, 10)\<close>: leading white space is skipped, one sign is read, then the longest
  run of decimal digits; without a digit the result is \<^verbatim>\<open>NaN\<close>, here \<open>None\<close>.  The value is
  an exact integer here; the double that JavaScript computes differs from it only beyond
  \<open>2^53\<close>, far outside the range of dates.
\<close>

definition is_white_space :: "char \<Rightarrow> bool" where
  "is_white_space c =
     (c \<in> set [CHR 0x09, CHR 0x0A, CHR 0x0B, CHR 0x0C, CHR 0x0D, CHR 0x20, CHR 0xA0])"

definition is_digit :: "char \<Rightarrow> bool" where
  "is_digit c = (c \<in> set ''0123456789'')"

definition digit_value :: "char \<Rightarrow> int" where
  "digit_value c = int (of_char c) - 48"

definition parseInt :: "string \<Rightarrow> int option" where
  "parseInt s =
     (let t = dropWhile is_white_space s;
          sign = (case t of c # r \<Rightarrow> if c = CHR ''-'' then - 1 else 1 | [] \<Rightarrow> (1::int));
          u = (case t of c # r \<Rightarrow> if c = CHR ''-'' \<or> c = CHR ''+'' then r else t | [] \<Rightarrow> []);
          z = takeWhile is_digit u
      in if z = [] then None
         else Some (sign * foldl (\<lambda>a c. 10 * a + digit_value c) 0 z))"

text \<open>The decimal text of an integer, as string concatenation with a number produces it.\<close>

fun digits :: "nat \<Rightarrow> string" where
  "digits n =
     (if n < 10 then [''0123456789'' ! n]
      else digits (n div 10) @ [''0123456789'' ! (n mod 10)])"

declare digits.simps [simp del]

definition number_text :: "int \<Rightarrow> string" where
  "number_text i = (if i < 0 then CHR ''-'' # digits (nat (- i)) else digits (nat i))"

subsection \<open>Dates of the platform\<close>

text \<open>
  What the script needs of \<^verbatim>\<open>Date\<close> and \<^verbatim>\<open>Intl\<close> is a parameter of the embedding:
  \<^item> \<open>LocalTZA\<close>: the offset of local time from UTC in milliseconds, taken as constant.
    In a zone whose offset changes, a local midnight that the zone skipped is moved by
    the platform (a whole skipped day, as 2011-12-30 in Pacific/Apia, shows as the next
    day); such zones are outside the embedding;
  \<^item> \<open>intl_format\<close>: what \<^verbatim>\<open>new Intl.DateTimeFormat('en-NZ', {day: 'numeric', month: 'short',
    year: 'numeric'}).format(d)\<close> returns for a date with a given time value, or \<open>None\<close> when
    the expression throws (an environment without \<^verbatim>\<open>Intl\<close>).
\<close>

record platform =
  LocalTZA :: int
  intl_format :: "(int \<Rightarrow> string) option"

definition msPerDay :: int where
  "msPerDay = 86400000"

definition maxTime :: int where
  "maxTime = 8640000000000000"

text \<open>The day number of the first of January of a year, as ECMAScript defines it.\<close>

definition DayFromYear :: "int \<Rightarrow> int" where
  "DayFromYear y =
     365 * (y - 1970) + (y - 1969) div 4 - (y - 1901) div 100 + (y - 1601) div 400"

definition InLeapYear :: "int \<Rightarrow> bool" where
  "InLeapYear y = (y mod 4 = 0 \<and> (y mod 100 \<noteq> 0 \<or> y mod 400 = 0))"

definition month_lengths :: "int \<Rightarrow> int list" where
  "month_lengths y =
     [31, if InLeapYear y then 29 else 28, 31, 30, 31, 30, 31, 31, 30, 31, 30, 31]"

definition TimeClip :: "int \<Rightarrow> int option" where
  "TimeClip t = (if \<bar>t\<bar> \<le> maxTime then Some t else None)"

text \<open>
  \<^verbatim>\<open>MakeDay(year, month, date)\<close>: months beyond 0..11 carry into the year, days beyond the
  month carry into the next months.  The first day of the month must itself be a time
  value, otherwise the result is \<^verbatim>\<open>NaN\<close>.
\<close>

definition MakeDay :: "int \<Rightarrow> int \<Rightarrow> int \<Rightarrow> int option" where
  "MakeDay year month dt =
     (let ym = year + month div 12;
          mn = nat (month mod 12);
          first = DayFromYear ym + sum_list (take mn (month_lengths ym))
      in if \<bar>first * msPerDay\<bar> \<le> maxTime then Some (first + dt - 1) else None)"

text \<open>
  \<^verbatim>\<open>new Date(y, m, d)\<close> on numbers that may be \<^verbatim>\<open>NaN\<close>: the time value of local midnight, or
  \<open>None\<close> for an invalid date (\<^verbatim>\<open>isNaN(d.getTime())\<close>).  Years 0 to 99 mean 1900 to 1999.
\<close>

definition newDate :: "platform \<Rightarrow> int option \<Rightarrow> int option \<Rightarrow> int option \<Rightarrow> int option" where
  "newDate pf y m d =
     (case (y, m, d) of
        (Some y, Some m, Some d) \<Rightarrow>
          (let yr = (if 0 \<le> y \<and> y \<le> 99 then 1900 + y else y)
           in case MakeDay yr m d of
                None \<Rightarrow> None
              | Some day \<Rightarrow> TimeClip (day * msPerDay - LocalTZA pf))
      | _ \<Rightarrow> None)"

text \<open>
  Year, month (0 to 11) and day of the month of a day number, in the proleptic Gregorian
  calendar: the inverse of \<open>MakeDay\<close> on the dates of the calendar.
\<close>

definition civil_from_day :: "int \<Rightarrow> int \<times> int \<times> int" where
  "civil_from_day day =
     (let z = day + 719468;
          era = z div 146097;
          doe = z - era * 146097;
          yoe = (doe - doe div 1460 + doe div 36524 - doe div 146096) div 365;
          doy = doe - (365 * yoe + yoe div 4 - yoe div 100);
          mp = (5 * doy + 2) div 153;
          d = doy - (153 * mp + 2) div 5 + 1;
          m = (if mp < 10 then mp + 2 else mp - 10);
          y = yoe + era * 400 + (if m \<le> 1 then 1 else 0)
      in (y, m, d))"

definition local_day :: "platform \<Rightarrow> int \<Rightarrow> int" where
  "local_day pf t = (t + LocalTZA pf) div msPerDay"

definition getFullYear :: "platform \<Rightarrow> int \<Rightarrow> int" where
  "getFullYear pf t = fst (civil_from_day (local_day pf t))"

definition getMonth :: "platform \<Rightarrow> int \<Rightarrow> int" where
  "getMonth pf t = fst (snd (civil_from_day (local_day pf t)))"

definition getDate :: "platform \<Rightarrow> int \<Rightarrow> int" where
  "getDate pf t = snd (snd (civil_from_day (local_day pf t)))"

subsection \<open>formatDate\<close>

text \<open>
  \<^verbatim>\<open>
  function formatDate(iso) {
    var parts = iso.split('-');
    if (parts.length < 3) return iso;
    var d = new Date(parseInt(parts[0], 10), parseInt(parts[1], 10) - 1, parseInt(parts[2], 10));
    if (isNaN(d.getTime())) return iso;
    try {
      return new Intl.DateTimeFormat('en-NZ', {day: 'numeric', month: 'short', year: 'numeric'}).format(d);
    } catch (e) {
      var months = ['Jan','Feb','Mar','Apr','May','Jun','Jul','Aug','Sep','Oct','Nov','Dec'];
      return d.getDate() + ' ' + months[d.getMonth()] + ' ' + d.getFullYear();
    }
  }
  \<close>
  On \<^verbatim>\<open>undefined\<close> the call \<^verbatim>\<open>iso.split\<close> throws a TypeError.
\<close>

definition months :: "string list" where
  "months = [''Jan'', ''Feb'', ''Mar'', ''Apr'', ''May'', ''Jun'',
             ''Jul'', ''Aug'', ''Sep'', ''Oct'', ''Nov'', ''Dec'']"

text \<open>Reading an array of strings at a number; out of range the text is ``undefined''.\<close>

definition index_text :: "string list \<Rightarrow> int \<Rightarrow> string" where
  "index_text xs i = (if 0 \<le> i \<and> i < int (length xs) then xs ! nat i else ''undefined'')"

definition fallback_format :: "platform \<Rightarrow> int \<Rightarrow> string" where
  "fallback_format pf t =
     number_text (getDate pf t) @ '' '' @ index_text months (getMonth pf t) @ '' ''
       @ number_text (getFullYear pf t)"

definition formatDate :: "platform \<Rightarrow> jsval \<Rightarrow> js_error + string" where
  "formatDate pf isoval =
     (case isoval of
        Undefined \<Rightarrow> Inl TypeError
      | Str s \<Rightarrow>
          (let parts = split_on CHR ''-'' s
           in if length parts < 3 then Inr s
              else (case newDate pf (parseInt (parts ! 0))
                                    (map_option (\<lambda>m. m - 1) (parseInt (parts ! 1)))
                                    (parseInt (parts ! 2)) of
                      None \<Rightarrow> Inr s
                    | Some t \<Rightarrow>
                        (case intl_format pf of
                           Some format \<Rightarrow> Inr (format t)
                         | None \<Rightarrow> Inr (fallback_format pf t)))))"

subsection \<open>Entries and cards\<close>

text \<open>
  An entry of \<^verbatim>\<open>journal.json\<close>, with the properties the script reads (it never reads
  \<^verbatim>\<open>id\<close>).
\<close>

record entry =
  title :: jsval
  excerpt :: jsval
  category :: jsval
  date :: jsval
  readTime :: jsval
  url :: jsval

text \<open>
  \<^verbatim>\<open>
  function buildCard(entry) {
    var formattedDate = formatDate(entry.date);
    var safeTitle    = escapeHtml(entry.title);
    var safeExcerpt  = escapeHtml(entry.excerpt);
    var safeCategory = escapeHtml(entry.category);
    var safeReadTime = entry.readTime ? escapeHtml(entry.readTime) : '';
    var safeUrl      = escapeHtml(entry.url);
    return '<li class="card">' + ... + '</li>';
  }
  \<close>
  The only call that can throw is the first one.
\<close>

definition buildCard :: "platform \<Rightarrow> entry \<Rightarrow> js_error + string" where
  \<open>buildCard pf e =
     (case formatDate pf (date e) of
        Inl err \<Rightarrow> Inl err
      | Inr formattedDate \<Rightarrow>
          (let safeTitle = escapeHtml (title e);
               safeExcerpt = escapeHtml (excerpt e);
               safeCategory = escapeHtml (category e);
               safeReadTime = (if truthy (readTime e) then escapeHtml (readTime e) else '''');
               safeUrl = escapeHtml (url e)
           in Inr (''<li class="card">'' @
                   ''<span class="card__category">'' @ safeCategory @ ''</span>'' @
                   ''<h3 class="card__title">'' @
                     ''<a href="'' @ safeUrl @ ''">'' @ safeTitle @ ''</a>'' @
                   ''</h3>'' @
                   ''<p class="card__excerpt">'' @ safeExcerpt @ ''</p>'' @
                   ''<div class="card__meta">'' @
                     ''<time class="card__date" datetime="'' @ escapeHtml (date e) @ ''">'' @
                       formattedDate @
                     ''</time>'' @
                     (if safeReadTime \<noteq> ''''
                      then ''<span class="card__read-time">'' @ safeReadTime @ ''</span>''
                      else '''') @
                   ''</div>'' @
                   ''</li>'')))\<close>

text \<open>\<^verbatim>\<open>latest.map(buildCard)\<close>: the first exception ends the loop.\<close>

fun map_throwing :: "('a \<Rightarrow> js_error + 'b) \<Rightarrow> 'a list \<Rightarrow> js_error + 'b list" where
  "map_throwing f [] = Inr []"
| "map_throwing f (x # xs) =
     (case f x of
        Inl err \<Rightarrow> Inl err
      | Inr y \<Rightarrow> (case map_throwing f xs of Inl err \<Rightarrow> Inl err | Inr ys \<Rightarrow> Inr (y # ys)))"

subsection \<open>Sorting and selecting\<close>

text \<open>
  \<^verbatim>\<open>x < y\<close> on the values of the embedding: two strings are compared code unit by code
  unit; \<^verbatim>\<open>undefined\<close> becomes \<^verbatim>\<open>NaN\<close>, and every comparison with it is false.
\<close>

fun js_less :: "jsval \<Rightarrow> jsval \<Rightarrow> bool" where
  "js_less (Str a) (Str b) = (a < b)"
| "js_less _ _ = False"

text \<open>
  The comparison function of the sort:
  \<^verbatim>\<open>function (a, b) { return b.date < a.date ? -1 : b.date > a.date ? 1 : 0; }\<close>
\<close>

definition compare_dates :: "entry \<Rightarrow> entry \<Rightarrow> int" where
  "compare_dates a b =
     (if js_less (date b) (date a) then - 1
      else if js_less (date a) (date b) then 1
      else 0)"

text \<open>
  \<^verbatim>\<open>Array.prototype.sort\<close> with a comparison function is a stable sort (ECMAScript 2019):
  when the function is a consistent ordering, as it is on entries whose dates are all
  strings, the result is the one that insertion from the right computes, whichever
  algorithm the engine runs.  With an entry without date among dated ones the function is
  not a consistent ordering (it returns 0 against every entry), the order then depends on
  the algorithm of the engine, and the model need not agree with it.
\<close>

fun insert_sorted :: "('a \<Rightarrow> 'a \<Rightarrow> int) \<Rightarrow> 'a \<Rightarrow> 'a list \<Rightarrow> 'a list" where
  "insert_sorted cmp x [] = [x]"
| "insert_sorted cmp x (y # ys) =
     (if cmp x y \<le> 0 then x # y # ys else y # insert_sorted cmp x ys)"

definition array_sort :: "('a \<Rightarrow> 'a \<Rightarrow> int) \<Rightarrow> 'a list \<Rightarrow> 'a list" where
  "array_sort cmp xs = foldr (insert_sorted cmp) xs []"

definition MAX_CARDS :: nat where
  "MAX_CARDS = 3"

text \<open>
  The first two statements of \<^verbatim>\<open>renderCards\<close>:
  \<^verbatim>\<open>var sorted = entries.slice().sort(...); var latest = sorted.slice(0, MAX_CARDS);\<close>
\<close>

definition select_latest :: "entry list \<Rightarrow> entry list" where
  "select_latest entries = take MAX_CARDS (array_sort compare_dates entries)"

subsection \<open>The page\<close>

text \<open>
  The two elements the script touches: the grid \<^verbatim>\<open>#journal-preview-grid\<close>, with the markup
  of its children, and the placeholder \<^verbatim>\<open>#journal-preview-fallback\<close>, with its content and
  its \<^verbatim>\<open>style.display\<close>.  Either may be absent from the page; they are distinct elements,
  neither inside the other.
\<close>

record element =
  innerHTML :: string
  display :: string

record page =
  grid :: "string option"
  fallback :: "element option"

text \<open>
  \<^verbatim>\<open>
  function renderCards(entries) {
    var sorted = ...; var latest = ...;
    var fallback = document.getElementById(FALLBACK_ID);
    if (fallback) fallback.style.display = 'none';
    var html = latest.map(buildCard).join('');
    grid.insertAdjacentHTML('beforeend', html);
  }
  \<close>
  The result is the page and the exception that ended the call, if any: the placeholder
  is hidden before the cards are built.
\<close>

definition hide_fallback :: "page \<Rightarrow> page" where
  "hide_fallback p = p\<lparr>fallback := map_option (\<lambda>f. f\<lparr>display := ''none''\<rparr>) (fallback p)\<rparr>"

definition insert_beforeend :: "string \<Rightarrow> page \<Rightarrow> page" where
  "insert_beforeend html p = p\<lparr>grid := map_option (\<lambda>g. g @ html) (grid p)\<rparr>"

definition renderCards :: "platform \<Rightarrow> entry list \<Rightarrow> page \<Rightarrow> page \<times> js_error option" where
  "renderCards pf entries p =
     (let latest = select_latest entries;
          p1 = hide_fallback p
      in case map_throwing (buildCard pf) latest of
           Inl err \<Rightarrow> (p1, Some err)
         | Inr cards \<Rightarrow> (insert_beforeend (concat cards) p1, None))"

text \<open>
  \<^verbatim>\<open>
  function showError(message) {
    var fallback = document.getElementById(FALLBACK_ID);
    if (fallback) {
      fallback.innerHTML = '<p>' + escapeHtml(message) + '</p>' +
        '<p><a href="journal.html">Browse all journal entries</a>.</p>';
    }
  }
  \<close>
  No statement of it can throw.
\<close>

definition showError :: "string \<Rightarrow> page \<Rightarrow> page" where
  \<open>showError message p =
     p\<lparr>fallback :=
         map_option
           (\<lambda>f. f\<lparr>innerHTML :=
                    ''<p>'' @ escapeHtml (Str message) @ ''</p>'' @
                    ''<p><a href="journal.html">Browse all journal entries</a>.</p>''\<rparr>)
           (fallback p)\<rparr>\<close>

subsection \<open>The payload and the transports\<close>

text \<open>
  The decoded payload, as far as the script inspects it: a JSON value and, for an
  object, its property \<^verbatim>\<open>entries\<close>: absent, present and not an array, or an array of
  entries.  For an array \<^verbatim>\<open>data.entries\<close> is a method of the prototype, for the other
  values it is \<^verbatim>\<open>undefined\<close>: neither is an array.  A number stands here as an integer; the
  script only tests whether it is zero.
\<close>

datatype entries_property = NoProperty | NotAnArray | EntryArray "entry list"

datatype json = JNull | JBool bool | JNum int | JStr string | JArray | JObject entries_property

fun json_truthy :: "json \<Rightarrow> bool" where
  "json_truthy JNull = False"
| "json_truthy (JBool b) = b"
| "json_truthy (JNum n) = (n \<noteq> 0)"
| "json_truthy (JStr s) = (s \<noteq> [])"
| "json_truthy JArray = True"
| "json_truthy (JObject _) = True"

fun data_entries :: "json \<Rightarrow> entries_property" where
  "data_entries (JObject p) = p"
| "data_entries JArray = NotAnArray"
| "data_entries _ = NoProperty"

fun isArray :: "entries_property \<Rightarrow> bool" where
  "isArray (EntryArray _) = True"
| "isArray _ = False"

fun elements :: "entries_property \<Rightarrow> entry list" where
  "elements (EntryArray es) = es"
| "elements _ = []"

text \<open>\<^verbatim>\<open>!data || !Array.isArray(data.entries) || data.entries.length === 0\<close>\<close>

definition invalid :: "json \<Rightarrow> bool" where
  "invalid data =
     (\<not> json_truthy data \<or> \<not> isArray (data_entries data)
      \<or> length (elements (data_entries data)) = 0)"

text \<open>
  What the network and the decoder do is an input of the run: the body of a response
  either decodes to a payload or is malformed; \<^verbatim>\<open>fetch\<close> rejects or resolves with a status
  and a body; \<^verbatim>\<open>XMLHttpRequest\<close> fires \<^verbatim>\<open>error\<close> or \<^verbatim>\<open>load\<close> with a status and a body.  The
  script takes \<^verbatim>\<open>fetch\<close> when it is a function and \<^verbatim>\<open>XMLHttpRequest\<close> otherwise; with neither,
  \<^verbatim>\<open>new XMLHttpRequest()\<close> throws a ReferenceError that nothing catches.  A request that
  never completes runs no handler and is not a run of the model.
\<close>

datatype body = Malformed | Decoded json

datatype fetch_outcome = Rejected | Response nat body

datatype xhr_outcome = ErrorEvent | LoadEvent nat body

datatype transport = Fetch fetch_outcome | Xhr xhr_outcome | NoTransport

text \<open>\<^verbatim>\<open>response.ok\<close>, and \<^verbatim>\<open>xhr.status >= 200 && xhr.status < 300\<close>.\<close>

definition ok :: "nat \<Rightarrow> bool" where
  "ok status = (200 \<le> status \<and> status < 300)"

text \<open>
  The handler of the payload, the same text on both paths:
  \<^verbatim>\<open>
  if (!data || !Array.isArray(data.entries) || data.entries.length === 0) {
    showError('No journal entries found yet.');
    return;
  }
  renderCards(data.entries);
  \<close>
\<close>

definition handle_data :: "platform \<Rightarrow> json \<Rightarrow> page \<Rightarrow> page \<times> js_error option" where
  "handle_data pf data p =
     (if invalid data then (showError ''No journal entries found yet.'' p, None)
      else renderCards pf (elements (data_entries data)) p)"

text \<open>
  The first \<^verbatim>\<open>then\<close> of the fetch path: the promise it returns is rejected when \<^verbatim>\<open>fetch\<close>
  rejected, when the status is not ok (\<^verbatim>\<open>throw new Error(...)\<close>) and when
  \<^verbatim>\<open>response.json()\<close> rejects.
\<close>

fun fetch_json :: "fetch_outcome \<Rightarrow> js_error + json" where
  "fetch_json Rejected = Inl TypeError"
| "fetch_json (Response status b) =
     (if \<not> ok status then Inl Error
      else (case b of Malformed \<Rightarrow> Inl SyntaxError | Decoded data \<Rightarrow> Inr data))"

text \<open>
  \<^verbatim>\<open>loadJournal\<close>.  On the fetch path \<^verbatim>\<open>catch\<close> handles the rejections of both \<^verbatim>\<open>then\<close>
  steps; on the other path \<^verbatim>\<open>try\<close> encloses the decoding and the handler of the payload.
  The result is the page after the run and the exception that escaped, if any.
\<close>

fun loadJournal :: "platform \<Rightarrow> transport \<Rightarrow> page \<Rightarrow> page \<times> js_error option" where
  "loadJournal pf (Fetch out) p =
     (case fetch_json out of
        Inl err \<Rightarrow> (showError ''Could not load journal entries at this time.'' p, None)
      | Inr data \<Rightarrow>
          (case handle_data pf data p of
             (p', Some err) \<Rightarrow> (showError ''Could not load journal entries at this time.'' p', None)
           | (p', None) \<Rightarrow> (p', None)))"
| "loadJournal pf (Xhr ErrorEvent) p =
     (showError ''Could not load journal entries at this time.'' p, None)"
| "loadJournal pf (Xhr (LoadEvent status b)) p =
     (if ok status then
        (case b of
           Malformed \<Rightarrow> (showError ''Could not read journal data.'' p, None)
         | Decoded data \<Rightarrow>
             (case handle_data pf data p of
                (p', Some err) \<Rightarrow> (showError ''Could not read journal data.'' p', None)
              | (p', None) \<Rightarrow> (p', None)))
      else (showError ''Could not load journal entries at this time.'' p, None))"
| "loadJournal pf NoTransport p = (p, Some ReferenceError)"

text \<open>
  The script as a whole: \<^verbatim>\<open>var grid = document.getElementById(GRID_ID); if (!grid) return;\<close>
  and then \<^verbatim>\<open>loadJournal()\<close>.
\<close>

definition script :: "platform \<Rightarrow> transport \<Rightarrow> page \<Rightarrow> page \<times> js_error option" where
  "script pf tr p = (case grid p of None \<Rightarrow> (p, None) | Some g \<Rightarrow> loadJournal pf tr p)"

subsection \<open>Runs, as the specification classifies them\<close>

text \<open>
  The payload that reaches the handler: the transport completed with a status in the
  success range and the body decoded.
\<close>

fun received :: "transport \<Rightarrow> json option" where
  "received (Fetch (Response status (Decoded data))) = (if ok status then Some data else None)"
| "received (Xhr (LoadEvent status (Decoded data))) = (if ok status then Some data else None)"
| "received _ = None"

text \<open>Validation passed: the run enters \<^verbatim>\<open>renderCards\<close>.\<close>

definition validated :: "transport \<Rightarrow> bool" where
  "validated tr = (case received tr of None \<Rightarrow> False | Some data \<Rightarrow> \<not> invalid data)"

text \<open>The run ends in the state Done: validation passed and every selected card was built.\<close>

definition renders :: "platform \<Rightarrow> transport \<Rightarrow> bool" where
  "renders pf tr =
     (case received tr of
        None \<Rightarrow> False
      | Some data \<Rightarrow>
          \<not> invalid data \<and>
          (case map_throwing (buildCard pf) (select_latest (elements (data_entries data))) of
             Inl err \<Rightarrow> False
           | Inr cards \<Rightarrow> True))"

text \<open>A transport failure: a rejected or errored request, or a status outside 200 to 299.\<close>

fun transport_failure :: "transport \<Rightarrow> bool" where
  "transport_failure (Fetch Rejected) = True"
| "transport_failure (Fetch (Response status b)) = (\<not> ok status)"
| "transport_failure (Xhr ErrorEvent) = True"
| "transport_failure (Xhr (LoadEvent status b)) = (\<not> ok status)"
| "transport_failure NoTransport = False"

text \<open>The error taxonomy of the specification, and the kind of error of a run, if any.\<close>

datatype error_kind =
  TransportUnavailableError | HttpStatusError | NetworkError | DecodeError | ValidationError

fun body_error :: "body \<Rightarrow> error_kind option" where
  "body_error Malformed = Some DecodeError"
| "body_error (Decoded data) = (if invalid data then Some ValidationError else None)"

fun error_kind_of :: "transport \<Rightarrow> error_kind option" where
  "error_kind_of NoTransport = Some TransportUnavailableError"
| "error_kind_of (Fetch Rejected) = Some NetworkError"
| "error_kind_of (Fetch (Response status b)) =
     (if ok status then body_error b else Some HttpStatusError)"
| "error_kind_of (Xhr ErrorEvent) = Some NetworkError"
| "error_kind_of (Xhr (LoadEvent status b)) =
     (if ok status then body_error b else Some HttpStatusError)"

fun is_xhr :: "transport \<Rightarrow> bool" where
  "is_xhr (Xhr out) = True"
| "is_xhr _ = False"

text \<open>
  The date that \<^verbatim>\<open>formatDate\<close> reads from a raw string: the time value of the \<^verbatim>\<open>Date\<close> it
  constructs, or \<open>None\<close> where it returns the raw string.
\<close>

definition date_read :: "platform \<Rightarrow> string \<Rightarrow> int option" where
  "date_read pf s =
     (let parts = split_on CHR ''-'' s
      in if length parts < 3 then None
         else newDate pf (parseInt (parts ! 0))
                (map_option (\<lambda>m. m - 1) (parseInt (parts ! 1)))
                (parseInt (parts ! 2)))"

text \<open>
  An entry whose dates the selector can order: the property \<^verbatim>\<open>date\<close> is a string.
\<close>

fun is_string :: "jsval \<Rightarrow> bool" where
  "is_string (Str s) = True"
| "is_string Undefined = False"

text \<open>Descending order of the date strings.\<close>

definition not_earlier :: "entry \<Rightarrow> entry \<Rightarrow> bool" where
  "not_earlier a b = (toString (date b) \<le> toString (date a))"

text \<open>
  The reading of the specification for dates: the components of a string are delimited
  by a dot or a dash, and a component is numeric when \<^verbatim>\<open>parseInt\<close> reads a number from it.
\<close>

fun split_dot_dash :: "string \<Rightarrow> string list" where
  "split_dot_dash [] = [[]]"
| "split_dot_dash (c # cs) =
     (if c = CHR ''.'' \<or> c = CHR ''-'' then [] # split_dot_dash cs
      else (case split_dot_dash cs of
              [] \<Rightarrow> [[c]]
            | p # ps \<Rightarrow> (c # p) # ps))"

definition three_numeric_components :: "string \<Rightarrow> bool" where
  "three_numeric_components s =
     (let cs = split_dot_dash s
      in 3 \<le> length cs \<and> list_all (\<lambda>c. parseInt c \<noteq> None) (take 3 cs))"

subsection \<open>The locale-aware formatter\<close>

text \<open>
  Modelled from the spec: the locale-aware formatter of the primary path, which is
  \<^verbatim>\<open>Intl.DateTimeFormat\<close> of the platform and not in the source.  The specification words it
  as day-numeric, month-abbreviated, year-numeric, as in ``15 Feb 2025'': the day of the
  month as a number, the abbreviation the locale has for the month, and the year as a
  number, with a space between them.  The abbreviations of the locale are a parameter.
\<close>

definition locale_format :: "string list \<Rightarrow> platform \<Rightarrow> int \<Rightarrow> string" where
  "locale_format abbreviations pf t =
     number_text (getDate pf t) @ '' '' @ index_text abbreviations (getMonth pf t) @ '' ''
       @ number_text (getFullYear pf t)"

text \<open>
  Modelled from the spec: the abbreviated month names of the locale en-NZ, which the
  script asks \<^verbatim>\<open>Intl\<close> for; they are data of the platform (the Unicode locale data), not
  of the source.  September is abbreviated ``Sept''.
\<close>

definition en_NZ_months :: "string list" where
  "en_NZ_months = [''Jan'', ''Feb'', ''Mar'', ''Apr'', ''May'', ''Jun'',
                   ''Jul'', ''Aug'', ''Sept'', ''Oct'', ''Nov'', ''Dec'']"

subsection \<open>Concrete inputs\<close>

text \<open>
  A platform in UTC without \<^verbatim>\<open>Intl\<close>, a page that shows the placeholder, and entries of
  the shape the header of the script gives.
\<close>

definition plain_platform :: platform where
  "plain_platform = \<lparr>LocalTZA = 0, intl_format = None\<rparr>"

text \<open>
  The platform in UTC whose \<^verbatim>\<open>Intl\<close> is the formatter of the locale en-NZ, and a platform
  with and without a formatter of given abbreviations.
\<close>

definition intl_platform :: platform where
  "intl_platform =
     \<lparr>LocalTZA = 0, intl_format = Some (locale_format en_NZ_months plain_platform)\<rparr>"



definition loading_page :: page where
  "loading_page =
     \<lparr>grid = Some '''',
      fallback = Some \<lparr>innerHTML = ''<p>Loading journal entries</p>'', display = ''block''\<rparr>\<rparr>"

definition sample_entry :: "string \<Rightarrow> string \<Rightarrow> entry" where
  "sample_entry t d =
     \<lparr>title = Str t, excerpt = Str ''Short summary text.'', category = Str ''UX Research'',
      date = Str d, readTime = Str ''5 min read'', url = Str ''journal/entry-slug.html''\<rparr>"

text \<open>The sample entry without its date, and without its title and read time.\<close>

definition undated_entry :: entry where
  "undated_entry = (sample_entry ''Entry title'' ''2025-02-15'')\<lparr>date := Undefined\<rparr>"

definition untitled_entry :: entry where
  "untitled_entry =
     (sample_entry ''Entry title'' ''2025-02-15'')\<lparr>title := Undefined, readTime := Undefined\<rparr>"

definition sample_entries :: "entry list" where
  "sample_entries =
     [sample_entry ''a'' ''2025-01-01'', sample_entry ''b'' ''2025-01-03'',
      sample_entry ''c'' ''2025-01-03'', sample_entry ''d'' ''2025-01-02'',
      sample_entry ''e'' ''2025-01-05'']"

section \<open>Properties\<close>

subsection \<open>escapeHtml\<close>

lemma replace_special_entity: "replace_special s = concat (map entity_of s)"
  by (induction s) (auto simp: special_def callback_def entity_map_def entity_of_def)

lemma entity_of_no_markup:
  "set (entity_of c) \<inter> {CHR ''<'', CHR ''>'', CHR 0x22, CHR 0x27} = {}"
  by (simp add: entity_of_def)

lemma entity_of_ampersands:
  "count_list (entity_of c) CHR ''&'' = (if special c then 1 else 0)"
  by (simp add: entity_of_def special_def)

lemma count_list_concat_map:
  "count_list (concat (map f s)) a = (\<Sum>c\<leftarrow>s. count_list (f c) a)"
  by (induction s) simp_all

lemma sum_list_indicator:
  "(\<Sum>c\<leftarrow>s. if P c then 1 else 0) = length (filter P s)"
  by (induction s) simp_all

lemma replace_special_id: "\<forall>c \<in> set s. \<not> special c \<Longrightarrow> replace_special s = s"
  by (induction s) simp_all

text \<open>
  C1 (as stated, refuted).  The claim says that the output of the escaping function
  contains none of the five characters, and that each of them becomes its named entity.
  Every entity starts with an ampersand, so the output of escaping \<open>'<\<close> contains one; and
  the apostrophe becomes the numeric reference \<open>&#39;\<close>, not the named entity \<open>&apos;\<close>.
\<close>

theorem escapeHtml_output_has_ampersand:
  "escapeHtml (Str [CHR 0x27, CHR ''<'']) = ''&#39;&lt;''
   \<and> special CHR ''&''
   \<and> CHR ''&'' \<in> set (escapeHtml (Str [CHR 0x27, CHR ''<'']))
   \<and> named_entity CHR 0x27 = ''&apos;''
   \<and> escapeHtml (Str [CHR 0x27]) \<noteq> named_entity CHR 0x27"
  by (simp add: escapeHtml_def special_def callback_def entity_map_def named_entity_def)

text \<open>
  C1 (amended).  For every string the escaping function replaces each of the five
  characters \<open>& < > " '\<close> by \<open>&amp; &lt; &gt; &quot; &#39;\<close> and copies every other
  character; its output contains none of \<open>< > " '\<close>; the ampersands of the output are as
  many as the characters replaced (one at the head of each entity); and a string without
  any of the five characters is returned as it is.
\<close>

theorem escapeHtml_entities:
  "escapeHtml (Str s) = concat (map entity_of s)
   \<and> set (escapeHtml (Str s)) \<inter> {CHR ''<'', CHR ''>'', CHR 0x22, CHR 0x27} = {}
   \<and> count_list (escapeHtml (Str s)) CHR ''&'' = length (filter special s)
   \<and> ((\<forall>c \<in> set s. \<not> special c) \<longrightarrow> escapeHtml (Str s) = s)"
proof -
  have e: "escapeHtml (Str s) = concat (map entity_of s)"
    by (simp add: escapeHtml_def replace_special_entity)
  have "set (concat (map entity_of s)) \<inter> {CHR ''<'', CHR ''>'', CHR 0x22, CHR 0x27} = {}"
    using entity_of_no_markup by (induction s) (simp_all add: Int_Un_distrib2)
  moreover have "count_list (concat (map entity_of s)) CHR ''&'' = length (filter special s)"
    by (simp add: count_list_concat_map entity_of_ampersands sum_list_indicator)
  moreover have "(\<forall>c \<in> set s. \<not> special c) \<longrightarrow> escapeHtml (Str s) = s"
    by (simp add: escapeHtml_def replace_special_id)
  ultimately show ?thesis using e by simp
qed

text \<open>C1 (amended) at a string without any of the five characters.\<close>

theorem escapeHtml_entities_witness:
  "filter special ''5 min read'' = []
   \<and> escapeHtml (Str ''5 min read'') = ''5 min read''"
proof -
  have h: "\<forall>c \<in> set ''5 min read''. \<not> special c"
    by (simp add: special_def)
  with escapeHtml_entities [of "''5 min read''"]
  have "escapeHtml (Str ''5 min read'') = ''5 min read''"
    by blast
  moreover from h have "filter special ''5 min read'' = []"
    by (simp only: filter_empty_conv)
  ultimately show ?thesis by blast
qed

subsection \<open>The error reporter and the failure paths\<close>

lemma showError_grid: "grid (showError m p) = grid p"
  by (simp add: showError_def)

lemma showError_display:
  "map_option display (fallback (showError m p)) = map_option display (fallback p)"
  by (cases "fallback p") (simp_all add: showError_def)

lemma showError_absent: "fallback p = None \<Longrightarrow> showError m p = p"
  by (simp add: showError_def)

lemma showError_present:
  "(fallback (showError m p) = None) = (fallback p = None)"
  by (simp add: showError_def)

lemma showError_overwrites: "showError m' (showError m p) = showError m' p"
  by (cases "fallback p") (simp_all add: showError_def)

lemma script_inert: "grid p = None \<Longrightarrow> script pf tr p = (p, None)"
  by (simp add: script_def)

lemma hide_fallback_grid: "grid (hide_fallback p) = grid p"
  by (simp add: hide_fallback_def)

lemma handle_data_invalid:
  "invalid data \<Longrightarrow> handle_data pf data p = (showError ''No journal entries found yet.'' p, None)"
  by (simp add: handle_data_def)

text \<open>
  C9.  The error reporter is idempotent and total: a second call with the same message
  changes nothing, a call with another message overwrites the content of the first (no
  accumulation), and on a page without the placeholder the call returns with the page
  unchanged.  That it cannot throw is its type: \<open>showError\<close> returns a page, not an
  exception, since no statement of the source function can throw.
\<close>

theorem showError_idempotent:
  "showError m (showError m p) = showError m p
   \<and> showError m' (showError m p) = showError m' p
   \<and> (fallback p = None \<longrightarrow> showError m p = p)"
  by (simp add: showError_overwrites showError_absent)

text \<open>C9 at a page without the placeholder.\<close>

theorem showError_idempotent_witness:
  "fallback \<lparr>grid = Some ''<li>a</li>'', fallback = None\<rparr> = None
   \<and> showError ''Could not load journal entries at this time.''
         \<lparr>grid = Some ''<li>a</li>'', fallback = None\<rparr>
       = \<lparr>grid = Some ''<li>a</li>'', fallback = None\<rparr>"
proof -
  have h: "fallback \<lparr>grid = Some ''<li>a</li>'', fallback = None\<rparr> = None"
    by simp
  with showError_idempotent [of _ "\<lparr>grid = Some ''<li>a</li>'', fallback = None\<rparr>"]
  show ?thesis by blast
qed

lemma loadJournal_not_rendered_grid:
  "\<not> renders pf tr \<Longrightarrow> grid (fst (loadJournal pf tr p)) = grid p"
proof (cases tr)
  case (Fetch out)
  show ?thesis if "\<not> renders pf tr" 
  proof (cases "fetch_json out")
    case (Inl e)
    then show ?thesis using Fetch by (simp add: showError_grid)
  next
    case (Inr data)
    then have r: "received tr = Some data"
      using Fetch by (cases out) (auto split: if_splits body.splits)
    show ?thesis
    proof (cases "invalid data")
      case True
      then show ?thesis using Fetch Inr by (simp add: handle_data_invalid showError_grid)
    next
      case False
      with r that obtain err where
        "map_throwing (buildCard pf) (select_latest (elements (data_entries data))) = Inl err"
        by (auto simp: renders_def split: sum.splits)
      then show ?thesis using Fetch Inr False
        by (simp add: handle_data_def renderCards_def showError_grid hide_fallback_grid)
    qed
  qed
next
  case (Xhr out)
  show ?thesis if "\<not> renders pf tr"
  proof (cases out)
    case ErrorEvent
    then show ?thesis using Xhr by (simp add: showError_grid)
  next
    case (LoadEvent status b)
    show ?thesis
    proof (cases "ok status")
      case False
      then show ?thesis using Xhr LoadEvent by (simp add: showError_grid)
    next
      case True
      show ?thesis
      proof (cases b)
        case Malformed
        then show ?thesis using Xhr LoadEvent True by (simp add: showError_grid)
      next
        case (Decoded data)
        show ?thesis
        proof (cases "invalid data")
          case True
          then show ?thesis using Xhr LoadEvent \<open>ok status\<close> Decoded
            by (simp add: handle_data_invalid showError_grid)
        next
          case False
          with that Xhr LoadEvent \<open>ok status\<close> Decoded obtain err where
            "map_throwing (buildCard pf) (select_latest (elements (data_entries data))) = Inl err"
            by (auto simp: renders_def split: sum.splits)
          then show ?thesis using Xhr LoadEvent \<open>ok status\<close> Decoded False
            by (simp add: handle_data_def renderCards_def showError_grid hide_fallback_grid)
        qed
      qed
    qed
  qed
next
  case NoTransport
  then show ?thesis by simp
qed

lemma loadJournal_transport_failure:
  "transport_failure tr \<Longrightarrow>
   loadJournal pf tr p = (showError ''Could not load journal entries at this time.'' p, None)"
proof (cases tr)
  case (Fetch out)
  then show ?thesis if "transport_failure tr"
    using that by (cases out) simp_all
next
  case (Xhr out)
  then show ?thesis if "transport_failure tr"
    using that by (cases out) simp_all
next
  case NoTransport
  then show ?thesis if "transport_failure tr"
    using that by simp
qed

lemma loadJournal_invalid:
  "received tr = Some data \<Longrightarrow> invalid data \<Longrightarrow>
   loadJournal pf tr p = (showError ''No journal entries found yet.'' p, None)"
proof (cases tr)
  case (Fetch out)
  then show ?thesis if "received tr = Some data" "invalid data"
    using that by (cases out) (auto simp: handle_data_invalid split: body.splits if_splits)
next
  case (Xhr out)
  then show ?thesis if "received tr = Some data" "invalid data"
    using that by (cases out) (auto simp: handle_data_invalid split: body.splits if_splits)
next
  case NoTransport
  then show ?thesis if "received tr = Some data"
    using that by simp
qed

lemma error_kind_cases:
  assumes "error_kind_of tr = Some k"
  shows "(k = TransportUnavailableError \<and> tr = NoTransport)
       \<or> (k \<in> {HttpStatusError, NetworkError} \<and> transport_failure tr)
       \<or> (k = DecodeError \<and> (\<exists>status. ok status \<and>
              (tr = Fetch (Response status Malformed) \<or> tr = Xhr (LoadEvent status Malformed))))
       \<or> (k = ValidationError \<and> (\<exists>data. received tr = Some data \<and> invalid data))"
proof (cases tr)
  case (Fetch out)
  show ?thesis
  proof (cases out)
    case Rejected
    then show ?thesis using assms Fetch by auto
  next
    case (Response status b)
    then show ?thesis using assms Fetch by (cases b) (auto split: if_splits)
  qed
next
  case (Xhr out)
  show ?thesis
  proof (cases out)
    case ErrorEvent
    then show ?thesis using assms Xhr by auto
  next
    case (LoadEvent status b)
    then show ?thesis using assms Xhr by (cases b) (auto split: if_splits)
  qed
next
  case NoTransport
  then show ?thesis using assms by auto
qed

text \<open>
  C3 (amended).  The four signalled kinds of error give three messages: a validation
  error gives ``No journal entries found yet.''; an HTTP status error and a network error
  give ``Could not load journal entries at this time.''; a decode error gives that same
  message on the fetch path and ``Could not read journal data.'' on the XMLHttpRequest
  path.  When no transport exists a ReferenceError escapes and nothing is reported.
\<close>

theorem failure_messages:
  assumes "error_kind_of tr = Some k"
  shows "loadJournal pf tr p =
     (case k of
        ValidationError \<Rightarrow> (showError ''No journal entries found yet.'' p, None)
      | DecodeError \<Rightarrow>
          (if is_xhr tr then (showError ''Could not read journal data.'' p, None)
           else (showError ''Could not load journal entries at this time.'' p, None))
      | HttpStatusError \<Rightarrow> (showError ''Could not load journal entries at this time.'' p, None)
      | NetworkError \<Rightarrow> (showError ''Could not load journal entries at this time.'' p, None)
      | TransportUnavailableError \<Rightarrow> (p, Some ReferenceError))"
  using error_kind_cases [OF assms]
  by (auto simp: loadJournal_transport_failure loadJournal_invalid)

text \<open>C3 (amended) at a malformed body on the fetch path.\<close>

theorem failure_messages_witness:
  "error_kind_of (Fetch (Response 200 Malformed)) = Some DecodeError
   \<and> loadJournal plain_platform (Fetch (Response 200 Malformed)) loading_page
       = (showError ''Could not load journal entries at this time.'' loading_page, None)"
proof -
  have h: "error_kind_of (Fetch (Response 200 Malformed)) = Some DecodeError"
    by (simp add: ok_def)
  from failure_messages [OF h, of plain_platform loading_page] h
  show ?thesis by simp
qed

text \<open>
  C3 (as stated, refuted).  A malformed body with status 200 on the XMLHttpRequest path
  is a decode error, and the placeholder then shows ``Could not read journal data.'',
  which is neither of the two messages of the claim.
\<close>

theorem xhr_decode_error_third_message:
  \<open>error_kind_of (Xhr (LoadEvent 200 Malformed)) = Some DecodeError
   \<and> loadJournal plain_platform (Xhr (LoadEvent 200 Malformed)) loading_page
       = (\<lparr>grid = Some '''',
           fallback = Some
             \<lparr>innerHTML = ''<p>Could not read journal data.</p><p><a href="journal.html">Browse all journal entries</a>.</p>'',
              display = ''block''\<rparr>\<rparr>, None)
   \<and> ''Could not read journal data.'' \<noteq> ''No journal entries found yet.''
   \<and> ''Could not read journal data.'' \<noteq> ''Could not load journal entries at this time.''\<close>
  by (simp add: ok_def loading_page_def showError_def escapeHtml_def special_def)

lemma loadJournal_not_validated_display:
  "\<not> validated tr \<Longrightarrow>
   map_option display (fallback (fst (loadJournal pf tr p))) = map_option display (fallback p)"
proof (cases tr)
  case (Fetch out)
  show ?thesis if "\<not> validated tr"
  proof (cases "fetch_json out")
    case (Inl e)
    then show ?thesis using Fetch by (simp add: showError_display)
  next
    case (Inr data)
    then have "received tr = Some data"
      using Fetch by (cases out) (auto split: if_splits body.splits)
    with that have "invalid data"
      by (simp add: validated_def)
    then show ?thesis using Fetch Inr by (simp add: handle_data_invalid showError_display)
  qed
next
  case (Xhr out)
  show ?thesis if "\<not> validated tr"
  proof (cases out)
    case ErrorEvent
    then show ?thesis using Xhr by (simp add: showError_display)
  next
    case (LoadEvent status b)
    show ?thesis
    proof (cases b)
      case Malformed
      then show ?thesis using Xhr LoadEvent by (simp add: showError_display)
    next
      case (Decoded data)
      show ?thesis
      proof (cases "ok status")
        case True
        with that Xhr LoadEvent Decoded have "invalid data"
          by (simp add: validated_def)
        then show ?thesis using Xhr LoadEvent Decoded True
          by (simp add: handle_data_invalid showError_display)
      next
        case False
        then show ?thesis using Xhr LoadEvent by (simp add: showError_display)
      qed
    qed
  qed
next
  case NoTransport
  then show ?thesis by simp
qed

lemma showError_innerHTML:
  \<open>fallback p = Some f \<Longrightarrow>
   fallback (showError m p) =
     Some (f\<lparr>innerHTML := ''<p>'' @ escapeHtml (Str m) @
                ''</p><p><a href="journal.html">Browse all journal entries</a>.</p>''\<rparr>)\<close>
  by (simp add: showError_def)

lemma escapeHtml_could_not_load:
  "escapeHtml (Str ''Could not load journal entries at this time.'')
     = ''Could not load journal entries at this time.''"
  by (simp add: escapeHtml_def special_def)

lemma escapeHtml_no_entries:
  "escapeHtml (Str ''No journal entries found yet.'') = ''No journal entries found yet.''"
  by (simp add: escapeHtml_def special_def)

lemma element_innerHTML_neq: "a \<noteq> b \<Longrightarrow> f\<lparr>innerHTML := a\<rparr> \<noteq> f\<lparr>innerHTML := b\<rparr>"
  by (cases f) simp

text \<open>
  C5.  The payloads \<open>{"entries": []}\<close>, an object without \<open>entries\<close> and an object whose
  \<open>entries\<close> is not an array are invalid; for every invalid payload received with a
  success status, on the fetch path and on the XMLHttpRequest path, the run ends with the
  error reporter called on ``No journal entries found yet.'', and where the placeholder
  exists that differs from what the generic message gives.
\<close>

theorem invalid_payload_no_entries_message:
  "invalid (JObject (EntryArray []))
   \<and> invalid (JObject NoProperty)
   \<and> invalid (JObject NotAnArray)
   \<and> (ok status \<and> invalid data \<longrightarrow>
        loadJournal pf (Fetch (Response status (Decoded data))) p
          = (showError ''No journal entries found yet.'' p, None)
        \<and> loadJournal pf (Xhr (LoadEvent status (Decoded data))) p
          = (showError ''No journal entries found yet.'' p, None))
   \<and> (fallback p \<noteq> None \<longrightarrow>
        showError ''No journal entries found yet.'' p
          \<noteq> showError ''Could not load journal entries at this time.'' p)"
proof -
  have "invalid (JObject (EntryArray []))" "invalid (JObject NoProperty)"
    "invalid (JObject NotAnArray)"
    by (simp_all add: invalid_def)
  moreover have "loadJournal pf (Fetch (Response status (Decoded data))) p
          = (showError ''No journal entries found yet.'' p, None)
        \<and> loadJournal pf (Xhr (LoadEvent status (Decoded data))) p
          = (showError ''No journal entries found yet.'' p, None)"
    if "ok status" "invalid data"
    using that by (simp add: handle_data_invalid)
  moreover have "showError ''No journal entries found yet.'' p
          \<noteq> showError ''Could not load journal entries at this time.'' p"
    if "fallback p \<noteq> None"
  proof -
    from that obtain f where f: "fallback p = Some f" by auto
    have "fallback (showError ''No journal entries found yet.'' p)
          \<noteq> fallback (showError ''Could not load journal entries at this time.'' p)"
      unfolding showError_innerHTML [OF f] escapeHtml_could_not_load escapeHtml_no_entries
      by (simp add: element_innerHTML_neq)
    then show ?thesis by auto
  qed
  ultimately show ?thesis by blast
qed

text \<open>C5 at the payload \<open>{"entries": []}\<close> with status 200.\<close>

theorem invalid_payload_no_entries_message_witness:
  \<open>ok 200 \<and> invalid (JObject (EntryArray [])) \<and> fallback loading_page \<noteq> None
   \<and> loadJournal plain_platform (Fetch (Response 200 (Decoded (JObject (EntryArray []))))) loading_page
       = (showError ''No journal entries found yet.'' loading_page, None)
   \<and> loadJournal plain_platform (Xhr (LoadEvent 200 (Decoded (JObject (EntryArray []))))) loading_page
       = (showError ''No journal entries found yet.'' loading_page, None)
   \<and> showError ''No journal entries found yet.'' loading_page
       \<noteq> showError ''Could not load journal entries at this time.'' loading_page
   \<and> fallback (showError ''No journal entries found yet.'' loading_page)
       = Some \<lparr>innerHTML = ''<p>No journal entries found yet.</p><p><a href="journal.html">Browse all journal entries</a>.</p>'',
               display = ''block''\<rparr>\<close>
proof -
  have h: "ok 200" "invalid (JObject (EntryArray []))" "fallback loading_page \<noteq> None"
    by (simp_all add: ok_def invalid_def loading_page_def)
  have "fallback (showError ''No journal entries found yet.'' loading_page)
       = Some \<lparr>innerHTML = ''<p>No journal entries found yet.</p><p><a href=\"journal.html\">Browse all journal entries</a>.</p>'',
               display = ''block''\<rparr>"
    by (simp add: showError_def loading_page_def escapeHtml_no_entries)
  with h invalid_payload_no_entries_message
         [of 200 "JObject (EntryArray [])" plain_platform loading_page]
  show ?thesis by blast
qed

text \<open>
  C6.  On a transport failure (a rejected or errored request, or a status outside 200 to
  299) the run ends with the error reporter called on ``Could not load journal entries at
  this time.'': the placeholder, when it exists, holds that message and the link, and its
  \<open>display\<close> is what it was.  More generally the \<open>display\<close> of the placeholder changes only
  in runs that pass validation.
\<close>

theorem transport_failure_message:
  \<open>(transport_failure tr \<longrightarrow>
      loadJournal pf tr p = (showError ''Could not load journal entries at this time.'' p, None)
      \<and> map_option display (fallback (fst (loadJournal pf tr p))) = map_option display (fallback p)
      \<and> (\<forall>f. fallback p = Some f \<longrightarrow>
            fallback (fst (loadJournal pf tr p)) =
              Some (f\<lparr>innerHTML := ''<p>Could not load journal entries at this time.</p><p><a href="journal.html">Browse all journal entries</a>.</p>''\<rparr>)))
   \<and> (\<not> validated tr \<longrightarrow>
      map_option display (fallback (fst (loadJournal pf tr p))) = map_option display (fallback p))\<close>
proof -
  have "loadJournal pf tr p = (showError ''Could not load journal entries at this time.'' p, None)
      \<and> map_option display (fallback (fst (loadJournal pf tr p))) = map_option display (fallback p)
      \<and> (\<forall>f. fallback p = Some f \<longrightarrow>
            fallback (fst (loadJournal pf tr p)) =
              Some (f\<lparr>innerHTML := ''<p>Could not load journal entries at this time.</p><p><a href=\"journal.html\">Browse all journal entries</a>.</p>''\<rparr>))"
    if "transport_failure tr"
    by (simp add: loadJournal_transport_failure [OF that] showError_display
        showError_innerHTML escapeHtml_could_not_load)
  then show ?thesis
    using loadJournal_not_validated_display by blast
qed

text \<open>C6 at a response with status 503 on the fetch path.\<close>

theorem transport_failure_message_witness:
  \<open>transport_failure (Fetch (Response 503 Malformed))
   \<and> \<not> validated (Fetch (Response 503 Malformed))
   \<and> fallback loading_page = Some \<lparr>innerHTML = ''<p>Loading journal entries</p>'', display = ''block''\<rparr>
   \<and> loadJournal plain_platform (Fetch (Response 503 Malformed)) loading_page
       = (\<lparr>grid = Some '''',
           fallback = Some
             \<lparr>innerHTML = ''<p>Could not load journal entries at this time.</p><p><a href="journal.html">Browse all journal entries</a>.</p>'',
              display = ''block''\<rparr>\<rparr>, None)\<close>
proof -
  have h: "transport_failure (Fetch (Response 503 Malformed))"
    "\<not> validated (Fetch (Response 503 Malformed))"
    "fallback loading_page = Some \<lparr>innerHTML = ''<p>Loading journal entries</p>'', display = ''block''\<rparr>"
    by (simp_all add: ok_def validated_def loading_page_def)
  from transport_failure_message [of "Fetch (Response 503 Malformed)" plain_platform loading_page] h
  have "loadJournal plain_platform (Fetch (Response 503 Malformed)) loading_page
          = (showError ''Could not load journal entries at this time.'' loading_page, None)"
    by blast
  moreover have "showError ''Could not load journal entries at this time.'' loading_page
     = \<lparr>grid = Some '''',
           fallback = Some
             \<lparr>innerHTML = ''<p>Could not load journal entries at this time.</p><p><a href=\"journal.html\">Browse all journal entries</a>.</p>'',
              display = ''block''\<rparr>\<rparr>"
    by (simp add: showError_def loading_page_def escapeHtml_could_not_load)
  ultimately show ?thesis using h by simp
qed

text \<open>
  C10.  The error reporter changes nothing but the content of the placeholder: the grid
  and its children are what they were, the \<open>display\<close> of the placeholder is what it was, and
  the placeholder is neither created nor removed.  In every run that does not end in
  Done, the grid is left as it was.
\<close>

theorem showError_frame:
  "grid (showError m p) = grid p
   \<and> map_option display (fallback (showError m p)) = map_option display (fallback p)
   \<and> (fallback (showError m p) = None) = (fallback p = None)
   \<and> (\<not> renders pf tr \<longrightarrow> grid (fst (loadJournal pf tr p)) = grid p)"
  by (simp add: showError_grid showError_display showError_present loadJournal_not_rendered_grid)

text \<open>C10 at a network error on the XMLHttpRequest path.\<close>

theorem showError_frame_witness:
  "\<not> renders plain_platform (Xhr ErrorEvent)
   \<and> grid (fst (loadJournal plain_platform (Xhr ErrorEvent) loading_page)) = grid loading_page"
proof -
  have h: "\<not> renders plain_platform (Xhr ErrorEvent)"
    by (simp add: renders_def)
  with showError_frame [where pf = plain_platform and tr = "Xhr ErrorEvent" and p = loading_page]
  show ?thesis by blast
qed

subsection \<open>The selector\<close>

lemma mset_insert_sorted: "mset (insert_sorted cmp x ys) = add_mset x (mset ys)"
  by (induction ys) simp_all

lemma mset_array_sort: "mset (array_sort cmp xs) = mset xs"
  unfolding array_sort_def by (induction xs) (simp_all add: mset_insert_sorted)

lemma set_insert_sorted: "set (insert_sorted cmp x ys) = insert x (set ys)"
  using mset_insert_sorted [of cmp x ys, THEN arg_cong, of set_mset] by simp

lemma length_array_sort: "length (array_sort cmp xs) = length xs"
  using mset_array_sort [of cmp xs, THEN arg_cong, of size] by simp

lemma compare_dates_strings:
  "date a = Str s \<Longrightarrow> date b = Str t \<Longrightarrow> (compare_dates a b \<le> 0) = (t \<le> s)"
  by (auto simp: compare_dates_def)

lemma compare_dates_positive: "\<not> compare_dates a b \<le> 0 \<Longrightarrow> date a \<noteq> date b"
  by (cases "date a"; cases "date b") (auto simp: compare_dates_def split: if_splits)

lemma sorted_insert_sorted:
  assumes "is_string (date x)" "\<forall>e \<in> set ys. is_string (date e)"
    and "sorted_wrt not_earlier ys"
  shows "sorted_wrt not_earlier (insert_sorted compare_dates x ys)"
  using assms
proof (induction ys)
  case Nil
  then show ?case by simp
next
  case (Cons y ys)
  from Cons.prems obtain s t where st: "date x = Str s" "date y = Str t"
    by (cases "date x"; cases "date y") auto
  show ?case
  proof (cases "compare_dates x y \<le> 0")
    case True
    with st have "t \<le> s" by (simp add: compare_dates_strings)
    with st Cons.prems(3) have "\<forall>e \<in> set (y # ys). not_earlier x e"
      by (auto simp: not_earlier_def)
    with True Cons.prems(3) show ?thesis by simp
  next
    case False
    with st have "s \<le> t" by (simp add: compare_dates_strings)
    with st have "not_earlier y x" by (simp add: not_earlier_def)
    with False Cons show ?thesis by (auto simp: set_insert_sorted)
  qed
qed

lemma sorted_array_sort:
  "\<forall>e \<in> set xs. is_string (date e) \<Longrightarrow> sorted_wrt not_earlier (array_sort compare_dates xs)"
proof (induction xs)
  case Nil
  then show ?case by (simp add: array_sort_def)
next
  case (Cons x xs)
  then have "sorted_wrt not_earlier (array_sort compare_dates xs)" by simp
  moreover have "\<forall>e \<in> set (array_sort compare_dates xs). is_string (date e)"
    using Cons.prems mset_array_sort [of compare_dates xs, THEN arg_cong, of set_mset] by simp
  ultimately show ?case
    using Cons.prems sorted_insert_sorted [of x "array_sort compare_dates xs"]
    by (simp add: array_sort_def)
qed

lemma filter_insert_sorted:
  "filter (\<lambda>e. date e = d) (insert_sorted compare_dates x ys)
     = filter (\<lambda>e. date e = d) (x # ys)"
proof (induction ys)
  case Nil
  then show ?case by simp
next
  case (Cons y ys)
  then show ?case
    using compare_dates_positive [of x y] by auto
qed

lemma filter_array_sort:
  "filter (\<lambda>e. date e = d) (array_sort compare_dates xs) = filter (\<lambda>e. date e = d) xs"
proof (induction xs)
  case Nil
  then show ?case by (simp add: array_sort_def)
next
  case (Cons x xs)
  have "filter (\<lambda>e. date e = d) (array_sort compare_dates (x # xs))
      = filter (\<lambda>e. date e = d) (x # array_sort compare_dates xs)"
    by (simp only: array_sort_def foldr.simps o_apply filter_insert_sorted)
  with Cons show ?case by simp
qed

lemma prefix_filter_take: "prefix (filter P (take n ys)) (filter P ys)"
proof -
  have "filter P ys = filter P (take n ys) @ filter P (drop n ys)"
    by (simp flip: filter_append)
  then show ?thesis by (simp add: prefix_def)
qed

lemma mset_take_subset: "mset (take n ys) \<subseteq># mset ys"
proof -
  have "mset ys = mset (take n ys) + mset (drop n ys)"
    by (simp flip: mset_append)
  then show ?thesis by simp
qed

text \<open>
  C2.  For every collection of entries whose dates are strings, the selector returns
  \<open>min 3 n\<close> of the \<open>n\<close> entries, ordered by the date string descending under the
  comparison of strings; what it returns is a part of the input as a multiset (nothing is
  padded or repeated); the entries of one date appear in their input order, being a
  prefix of the input entries of that date; and no entry left out has a later date than
  an entry returned.
\<close>

theorem select_latest_sorted_stable:
  assumes "\<forall>e \<in> set entries. is_string (date e)"
  shows "length (select_latest entries) = min 3 (length entries)
       \<and> sorted_wrt (\<lambda>a b. toString (date b) \<le> toString (date a)) (select_latest entries)
       \<and> mset (select_latest entries) \<subseteq># mset entries
       \<and> (\<forall>d. prefix (filter (\<lambda>e. date e = d) (select_latest entries))
                      (filter (\<lambda>e. date e = d) entries))
       \<and> (\<forall>a \<in> set (select_latest entries).
            \<forall>b \<in># mset entries - mset (select_latest entries).
              toString (date b) \<le> toString (date a))"
proof -
  let ?s = "array_sort compare_dates entries"
  have len: "length (select_latest entries) = min 3 (length entries)"
    by (simp add: select_latest_def MAX_CARDS_def length_array_sort)
  have srt: "sorted_wrt not_earlier ?s"
    using assms by (rule sorted_array_sort)
  then have "sorted_wrt not_earlier (select_latest entries)"
    by (simp add: select_latest_def sorted_wrt_take)
  then have s1: "sorted_wrt (\<lambda>a b. toString (date b) \<le> toString (date a)) (select_latest entries)"
    by (simp add: not_earlier_def [abs_def])
  have sub: "mset (select_latest entries) \<subseteq># mset entries"
    using mset_take_subset [of MAX_CARDS ?s] by (simp add: select_latest_def mset_array_sort)
  have stab: "prefix (filter (\<lambda>e. date e = d) (select_latest entries))
                      (filter (\<lambda>e. date e = d) entries)" for d
    using prefix_filter_take [of "\<lambda>e. date e = d" MAX_CARDS ?s]
    by (simp add: select_latest_def filter_array_sort)
  have rest: "toString (date b) \<le> toString (date a)"
    if "a \<in> set (select_latest entries)" "b \<in># mset entries - mset (select_latest entries)"
    for a b
  proof -
    have "mset entries = mset (take MAX_CARDS ?s) + mset (drop MAX_CARDS ?s)"
      by (simp add: mset_array_sort flip: mset_append)
    then have "mset entries - mset (select_latest entries) = mset (drop MAX_CARDS ?s)"
      by (simp add: select_latest_def)
    with that have b: "b \<in> set (drop MAX_CARDS ?s)" by simp
    from srt have "sorted_wrt not_earlier (take MAX_CARDS ?s @ drop MAX_CARDS ?s)" by simp
    then have "\<forall>x \<in> set (take MAX_CARDS ?s). \<forall>y \<in> set (drop MAX_CARDS ?s). not_earlier x y"
      unfolding sorted_wrt_append by blast
    with that(1) b show ?thesis
      by (simp add: select_latest_def not_earlier_def)
  qed
  from len s1 sub stab rest show ?thesis by blast
qed

lemma select_latest_sample:
  "select_latest sample_entries =
     [sample_entry ''e'' ''2025-01-05'', sample_entry ''b'' ''2025-01-03'',
      sample_entry ''c'' ''2025-01-03'']"
  by (simp add: select_latest_def array_sort_def compare_dates_def MAX_CARDS_def
      sample_entries_def sample_entry_def)

lemma rest_sample:
  "sample_entry ''a'' ''2025-01-01'' \<in># mset sample_entries - mset (select_latest sample_entries)"
  by (simp add: select_latest_sample) (simp add: sample_entries_def sample_entry_def)

text \<open>
  C2 at five entries, two of which share the date 2025-01-03: the entry of 2025-01-05
  comes first, then the two of 2025-01-03 in their input order; the entry of 2025-01-01 is
  left out.
\<close>

theorem select_latest_sorted_stable_witness:
  "list_all (\<lambda>e. is_string (date e)) sample_entries
   \<and> length (select_latest sample_entries) = min 3 (length sample_entries)
   \<and> sorted_wrt (\<lambda>a b. toString (date b) \<le> toString (date a)) (select_latest sample_entries)
   \<and> mset (select_latest sample_entries) \<subseteq># mset sample_entries
   \<and> prefix (filter (\<lambda>e. date e = Str ''2025-01-03'') (select_latest sample_entries))
             (filter (\<lambda>e. date e = Str ''2025-01-03'') sample_entries)
   \<and> toString (date (sample_entry ''a'' ''2025-01-01''))
         \<le> toString (date (sample_entry ''e'' ''2025-01-05''))
   \<and> map title (select_latest sample_entries) = [Str ''e'', Str ''b'', Str ''c'']"
proof -
  have h: "\<forall>e \<in> set sample_entries. is_string (date e)"
    by (simp add: sample_entries_def sample_entry_def)
  note sel = select_latest_sorted_stable [OF h]
  have a: "sample_entry ''e'' ''2025-01-05'' \<in> set (select_latest sample_entries)"
    by (simp add: select_latest_sample)
  from sel a rest_sample
  have r: "toString (date (sample_entry ''a'' ''2025-01-01''))
         \<le> toString (date (sample_entry ''e'' ''2025-01-05''))"
    by blast
  from sel
  have p: "prefix (filter (\<lambda>e. date e = Str ''2025-01-03'') (select_latest sample_entries))
             (filter (\<lambda>e. date e = Str ''2025-01-03'') sample_entries)"
    by blast
  have t: "map title (select_latest sample_entries) = [Str ''e'', Str ''b'', Str ''c'']"
    by (simp add: select_latest_sample sample_entry_def)
  from h have "list_all (\<lambda>e. is_string (date e)) sample_entries"
    by (simp add: list_all_iff)
  with sel r p t show ?thesis
    by blast
qed

subsection \<open>The date formatter\<close>

lemma split_on_not_Nil: "split_on c s \<noteq> []"
  by (induction s) (auto split: list.splits)

lemma length_split_on: "length (split_on c s) = Suc (count_list s c)"
proof (induction s)
  case Nil
  then show ?case by simp
next
  case (Cons a s)
  then show ?case
    using split_on_not_Nil [of c s] by (auto split: list.splits)
qed

lemma formatDate_date_read:
  "formatDate pf (Str s) =
     (case date_read pf s of
        None \<Rightarrow> Inr s
      | Some t \<Rightarrow>
          (case intl_format pf of
             Some format \<Rightarrow> Inr (format t)
           | None \<Rightarrow> Inr (fallback_format pf t)))"
  by (simp add: formatDate_def date_read_def Let_def)

lemma newDate_NaN:
  "y = None \<or> m = None \<or> d = None \<Longrightarrow> newDate pf y m d = None"
  by (auto simp: newDate_def split: option.splits)

lemma date_read_few_parts: "count_list s CHR ''-'' < 2 \<Longrightarrow> date_read pf s = None"
  by (simp add: date_read_def length_split_on)

lemma date_read_not_numeric:
  assumes "i < 3" "parseInt (split_on CHR ''-'' s ! i) = None"
  shows "date_read pf s = None"
proof -
  from assms(1) have "i = 0 \<or> i = 1 \<or> i = 2" by auto
  with assms(2) show ?thesis
    by (auto simp: date_read_def Let_def newDate_NaN)
qed

lemma digits_no_dash: "CHR ''-'' \<notin> set (digits n)"
proof (induction n rule: digits.induct)
  case (1 n)
  have d: "''0123456789'' ! k \<noteq> CHR ''-''" if "k < 10" for k :: nat
  proof -
    from that have "''0123456789'' ! k \<in> set ''0123456789''"
      by (intro nth_mem) simp
    then show ?thesis by auto
  qed
  show ?case
  proof (cases "n < 10")
    case True
    then show ?thesis using d [of n] by (simp add: digits.simps [of n])
  next
    case False
    moreover have "n mod 10 < 10" by simp
    ultimately show ?thesis
      using 1 d [of "n mod 10"] by (simp add: digits.simps [of n])
  qed
qed

lemma count_number_text: "count_list (number_text i) CHR ''-'' \<le> 1"
  using digits_no_dash by (simp add: number_text_def count_list_0_iff)

lemma count_number_text_nonneg: "0 \<le> i \<Longrightarrow> count_list (number_text i) CHR ''-'' = 0"
  using digits_no_dash by (simp add: number_text_def count_list_0_iff)

lemma div_bound: "(153 * ((5 * doy + 2) div 153) + 2) div 5 \<le> (doy :: int)"
proof -
  let ?x = "5 * doy + 2"
  have "?x = 153 * (?x div 153) + ?x mod 153"
    by (simp only: mult_div_mod_eq)
  moreover have "0 \<le> ?x mod 153"
    by (rule pos_mod_sign) simp
  ultimately have "153 * (?x div 153) + 2 \<le> 5 * doy + 4"
    by linarith
  then have "(153 * (?x div 153) + 2) div 5 \<le> (5 * doy + 4) div 5"
    by (rule zdiv_mono1) simp
  also have "(5 * doy + 4) div 5 = doy"
    by simp
  finally show ?thesis .
qed

lemma day_of_month_positive: "1 \<le> snd (snd (civil_from_day n))"
  unfolding civil_from_day_def Let_def snd_conv
  using div_bound by (simp only: le_add_same_cancel2 diff_ge_0_iff_ge)

lemma index_months_no_dash: "CHR ''-'' \<notin> set (index_text months i)"
proof (cases "0 \<le> i \<and> i < int (length months)")
  case True
  then have "months ! nat i \<in> set months" by (simp add: nat_less_iff)
  moreover have "\<forall>m \<in> set months. CHR ''-'' \<notin> set m"
    by (simp add: months_def)
  ultimately show ?thesis using True by (simp add: index_text_def)
next
  case False
  then show ?thesis by (auto simp: index_text_def)
qed

lemma count_fallback_format: "count_list (fallback_format pf t) CHR ''-'' \<le> 1"
proof -
  have "count_list (number_text (getDate pf t)) CHR ''-'' = 0"
    using day_of_month_positive [of "local_day pf t"]
    by (intro count_number_text_nonneg) (simp add: getDate_def)
  moreover have "count_list (index_text months (getMonth pf t)) CHR ''-'' = 0"
    using index_months_no_dash by (simp add: count_list_0_iff)
  moreover have "count_list (number_text (getFullYear pf t)) CHR ''-'' \<le> 1"
    by (rule count_number_text)
  ultimately show ?thesis
    by (simp add: fallback_format_def)
qed

lemma fallback_format_not_raw:
  assumes "date_read pf s = Some t"
  shows "fallback_format pf t \<noteq> s"
proof
  assume "fallback_format pf t = s"
  then have "count_list s CHR ''-'' \<le> 1"
    using count_fallback_format [of pf t] by simp
  then have "date_read pf s = None"
    by (intro date_read_few_parts) simp
  with assms show False by simp
qed

text \<open>
  C4 (amended).  The formatter splits the raw string at dashes only.  It returns the raw
  string itself when the string has fewer than three dash-delimited parts (fewer than two
  dashes; a dot delimits nothing), when \<^verbatim>\<open>parseInt\<close> reads no number from one of the first
  three parts, and when the date read is out of the range of dates.  For every other
  string it returns the formatted date: on the manual fallback path the text of day,
  month abbreviation and year, which differs from the raw string; on the primary path
  what \<^verbatim>\<open>Intl\<close> returns.
\<close>

theorem formatDate_raw_or_formatted:
  "(count_list s CHR ''-'' < 2 \<longrightarrow> formatDate pf (Str s) = Inr s)
   \<and> ((\<exists>i<3. parseInt (split_on CHR ''-'' s ! i) = None) \<longrightarrow> formatDate pf (Str s) = Inr s)
   \<and> (date_read pf s = None \<longrightarrow> formatDate pf (Str s) = Inr s)
   \<and> (\<forall>t. date_read pf s = Some t \<and> intl_format pf = None \<longrightarrow>
          formatDate pf (Str s) = Inr (fallback_format pf t) \<and> fallback_format pf t \<noteq> s)
   \<and> (\<forall>t format. date_read pf s = Some t \<and> intl_format pf = Some format \<longrightarrow>
          formatDate pf (Str s) = Inr (format t))"
proof -
  have "formatDate pf (Str s) = Inr s" if "count_list s CHR ''-'' < 2"
    using date_read_few_parts [OF that] by (simp add: formatDate_date_read)
  moreover have "formatDate pf (Str s) = Inr s"
    if "\<exists>i<3. parseInt (split_on CHR ''-'' s ! i) = None"
    using that date_read_not_numeric [of _ s pf] by (auto simp: formatDate_date_read)
  moreover have "formatDate pf (Str s) = Inr s" if "date_read pf s = None"
    using that by (simp add: formatDate_date_read)
  moreover have "formatDate pf (Str s) = Inr (fallback_format pf t) \<and> fallback_format pf t \<noteq> s"
    if "date_read pf s = Some t \<and> intl_format pf = None" for t
    using that fallback_format_not_raw [of pf s t] by (simp add: formatDate_date_read)
  moreover have "formatDate pf (Str s) = Inr (format t)"
    if "date_read pf s = Some t \<and> intl_format pf = Some format" for t format
    using that by (simp add: formatDate_date_read)
  ultimately show ?thesis by blast
qed

lemma date_read_intl_2025_02_15: "date_read intl_platform ''2025-02-15'' = Some 1739577600000"
  by code_simp

lemma intl_platform_intl:
  "intl_format intl_platform = Some (locale_format en_NZ_months plain_platform)"
  by (simp add: intl_platform_def)

lemma locale_format_2025_02_15:
  "locale_format en_NZ_months plain_platform 1739577600000 = ''15 Feb 2025''"
  by code_simp

text \<open>Dates of the calendar and their day numbers, among them the carries of \<^verbatim>\<open>Date\<close>.\<close>

lemma MakeDay_examples:
  "MakeDay 1970 0 1 = Some 0
   \<and> MakeDay 2025 1 15 = Some 20134
   \<and> MakeDay 2024 1 29 = Some 19782
   \<and> MakeDay 2025 12 45 = MakeDay 2026 1 14
   \<and> MakeDay 1900 (- 1) 0 = MakeDay 1899 10 30"
  by code_simp

lemma civil_from_day_examples:
  "civil_from_day 0 = (1970, 0, 1)
   \<and> civil_from_day 20134 = (2025, 1, 15)
   \<and> civil_from_day 19782 = (2024, 1, 29)
   \<and> civil_from_day 19783 = (2024, 2, 1)
   \<and> civil_from_day (- 1) = (1969, 11, 31)
   \<and> civil_from_day 100000000 = (275760, 8, 13)"
  by code_simp

lemma plain_platform_no_intl: "intl_format plain_platform = None"
  by (simp add: plain_platform_def)

lemma date_read_2025_02_15: "date_read plain_platform ''2025-02-15'' = Some 1739577600000"
  by code_simp

lemma fallback_format_2025_02_15: "fallback_format plain_platform 1739577600000 = ''15 Feb 2025''"
  by code_simp

lemma formatDate_2025_02_15:
  "formatDate plain_platform (Str ''2025-02-15'') = Inr ''15 Feb 2025''"
  by (simp add: formatDate_date_read date_read_2025_02_15 fallback_format_2025_02_15
      plain_platform_no_intl)

lemma date_read_out_of_range: "date_read plain_platform ''300000-01-01'' = None"
  by code_simp

lemma not_a_date_parts:
  "split_on CHR ''-'' ''not-a-date'' = [''not'', ''a'', ''date''] \<and> parseInt ''not'' = None"
  by (simp add: parseInt_def is_white_space_def is_digit_def)

text \<open>
  C4 (amended) at \<open>2025.02.15\<close>, \<open>not-a-date\<close> and \<open>300000-01-01\<close>, which are returned
  raw, and at \<open>2025-02-15\<close>, which is formatted on both paths.
\<close>

theorem formatDate_raw_or_formatted_witness:
  "count_list ''2025.02.15'' CHR ''-'' < 2
   \<and> formatDate plain_platform (Str ''2025.02.15'') = Inr ''2025.02.15''
   \<and> parseInt (split_on CHR ''-'' ''not-a-date'' ! 0) = None
   \<and> formatDate plain_platform (Str ''not-a-date'') = Inr ''not-a-date''
   \<and> date_read plain_platform ''300000-01-01'' = None
   \<and> formatDate plain_platform (Str ''300000-01-01'') = Inr ''300000-01-01''
   \<and> date_read plain_platform ''2025-02-15'' = Some 1739577600000
   \<and> intl_format plain_platform = None
   \<and> formatDate plain_platform (Str ''2025-02-15'') = Inr ''15 Feb 2025''
   \<and> ''15 Feb 2025'' \<noteq> ''2025-02-15''
   \<and> date_read intl_platform ''2025-02-15'' = Some 1739577600000
   \<and> intl_format intl_platform = Some (locale_format en_NZ_months plain_platform)
   \<and> formatDate intl_platform (Str ''2025-02-15'') = Inr ''15 Feb 2025''"
proof -
  have a: "count_list ''2025.02.15'' CHR ''-'' < 2"
    by simp
  have b: "parseInt (split_on CHR ''-'' ''not-a-date'' ! 0) = None"
    by (simp add: not_a_date_parts)
  then have b': "\<exists>i<3. parseInt (split_on CHR ''-'' ''not-a-date'' ! i) = None"
    by (intro exI [of _ 0]) simp
  note c = date_read_out_of_range
  have d: "date_read plain_platform ''2025-02-15'' = Some 1739577600000
           \<and> intl_format plain_platform = None"
    by (simp add: date_read_2025_02_15 plain_platform_no_intl)
  have e: "date_read intl_platform ''2025-02-15'' = Some 1739577600000
           \<and> intl_format intl_platform = Some (locale_format en_NZ_months plain_platform)"
    by (simp add: date_read_intl_2025_02_15 intl_platform_intl)
  have "formatDate plain_platform (Str ''2025.02.15'') = Inr ''2025.02.15''"
    using formatDate_raw_or_formatted [of "''2025.02.15''" plain_platform] a by blast
  moreover have "formatDate plain_platform (Str ''not-a-date'') = Inr ''not-a-date''"
    using formatDate_raw_or_formatted [of "''not-a-date''" plain_platform] b' by blast
  moreover have "formatDate plain_platform (Str ''300000-01-01'') = Inr ''300000-01-01''"
    using formatDate_raw_or_formatted [of "''300000-01-01''" plain_platform] c by blast
  moreover have "formatDate plain_platform (Str ''2025-02-15'') = Inr ''15 Feb 2025''"
    using formatDate_raw_or_formatted [of "''2025-02-15''" plain_platform] d
    by (simp add: fallback_format_2025_02_15)
  moreover have "formatDate intl_platform (Str ''2025-02-15'') = Inr ''15 Feb 2025''"
    using formatDate_raw_or_formatted [of "''2025-02-15''" intl_platform] e
    by (simp add: locale_format_2025_02_15)
  ultimately show ?thesis using a b c d e by simp
qed

lemma dots_components:
  "split_dot_dash ''2025.02.15'' = [''2025'', ''02'', ''15'']"
  by simp

lemma parseInt_components:
  "parseInt ''2025'' = Some 2025 \<and> parseInt ''02'' = Some 2 \<and> parseInt ''15'' = Some 15"
  by (simp add: parseInt_def is_white_space_def is_digit_def digit_value_def)

lemma dashes_components:
  "split_dot_dash ''300000-01-01'' = [''300000'', ''01'', ''01'']"
  by simp

lemma parseInt_components_300000:
  "parseInt ''300000'' = Some 300000 \<and> parseInt ''01'' = Some 1"
  by (simp add: parseInt_def is_white_space_def is_digit_def digit_value_def)

text \<open>
  C4 (as stated, refuted).  The string \<open>2025.02.15\<close> has three dot-delimited numeric
  components and the string \<open>300000-01-01\<close> three dash-delimited ones, so the claim says
  that the formatter does not return them raw; it does: a dot delimits nothing, and the
  year 300000 is beyond the range of dates.
\<close>

theorem formatDate_dotted_date_raw:
  "three_numeric_components ''2025.02.15''
   \<and> formatDate plain_platform (Str ''2025.02.15'') = Inr ''2025.02.15''
   \<and> three_numeric_components ''300000-01-01''
   \<and> formatDate plain_platform (Str ''300000-01-01'') = Inr ''300000-01-01''"
proof -
  have "three_numeric_components ''2025.02.15''"
    unfolding three_numeric_components_def dots_components
    by (simp add: parseInt_components)
  moreover have "date_read plain_platform ''2025.02.15'' = None"
    by (simp add: date_read_few_parts)
  moreover have "three_numeric_components ''300000-01-01''"
    unfolding three_numeric_components_def dashes_components
    by (simp add: parseInt_components_300000)
  ultimately show ?thesis
    by (simp add: formatDate_date_read date_read_out_of_range)
qed

subsection \<open>Entries with missing fields\<close>

lemma formatDate_string: "\<exists>formatted. formatDate pf (Str s) = Inr formatted"
  by (simp add: formatDate_date_read split: option.splits)

lemma buildCard_string_date:
  "is_string (date e) \<Longrightarrow> \<exists>html. buildCard pf e = Inr html"
proof -
  assume "is_string (date e)"
  then obtain s where s: "date e = Str s"
    by (cases "date e") auto
  obtain formatted where "formatDate pf (Str s) = Inr formatted"
    using formatDate_string by blast
  with s show ?thesis
    by (simp add: buildCard_def Let_def)
qed

lemma map_throwing_total:
  "\<forall>x \<in> set xs. \<exists>y. f x = Inr y \<Longrightarrow> \<exists>ys. map_throwing f xs = Inr ys"
  by (induction xs) auto

lemma set_select_latest: "set (select_latest es) \<subseteq> set es"
  using set_mset_mono [OF mset_take_subset [of MAX_CARDS "array_sort compare_dates es"]]
  by (simp add: select_latest_def mset_array_sort)

lemma escapeHtml_undefined: "escapeHtml Undefined = ''undefined''"
  by (simp add: escapeHtml_def special_def)

lemma escapeHtml_truthy: "truthy v \<Longrightarrow> escapeHtml v \<noteq> []"
proof (cases v)
  case Undefined
  then show ?thesis if "truthy v"
    using that by simp
next
  case (Str s)
  show ?thesis if "truthy v"
  proof (cases s)
    case Nil
    with Str that show ?thesis by simp
  next
    case (Cons c cs)
    have "entity_of c \<noteq> []"
      by (simp add: entity_of_def)
    with Str Cons show ?thesis
      by (simp add: escapeHtml_def replace_special_entity)
  qed
qed

text \<open>
  The card of an entry whose date is a string: every other field goes through
  \<^verbatim>\<open>String\<close> in \<open>escapeHtml\<close>, so that a missing title, excerpt, category or url is the
  text ``undefined'' in its place, and a missing read time leaves its element out.
\<close>

lemma buildCard_dated:
  assumes "date e = Str s" and "formatDate pf (Str s) = Inr formatted"
  shows \<open>buildCard pf e
         = Inr (''<li class="card"><span class="card__category">'' @ escapeHtml (category e) @
                ''</span><h3 class="card__title"><a href="'' @ escapeHtml (url e) @ ''">'' @
                escapeHtml (title e) @ ''</a></h3><p class="card__excerpt">'' @
                escapeHtml (excerpt e) @
                ''</p><div class="card__meta"><time class="card__date" datetime="'' @
                escapeHtml (Str s) @ ''">'' @ formatted @ ''</time>'' @
                (if truthy (readTime e)
                 then ''<span class="card__read-time">'' @ escapeHtml (readTime e) @ ''</span>''
                 else []) @
                ''</div></li>'')\<close>
  using assms escapeHtml_truthy [of "readTime e"]
  by (simp add: buildCard_def Let_def)

lemma buildCard_missing_fields:
  assumes "date e = Str s" and "formatDate pf (Str s) = Inr formatted"
    and "title e = Undefined" and "excerpt e = Undefined" and "category e = Undefined"
    and "url e = Undefined" and "readTime e = Undefined"
  shows \<open>buildCard pf e
         = Inr (''<li class="card"><span class="card__category">undefined</span>'' @
                ''<h3 class="card__title"><a href="undefined">undefined</a></h3>'' @
                ''<p class="card__excerpt">undefined</p>'' @
                ''<div class="card__meta"><time class="card__date" datetime="'' @
                escapeHtml (Str s) @ ''">'' @ formatted @ ''</time></div></li>'')\<close>
  by (simp add: buildCard_dated [OF assms(1,2)] assms(3-7) escapeHtml_undefined)

lemma handle_data_renders:
  assumes "\<not> invalid data"
    and "map_throwing (buildCard pf) (select_latest (elements (data_entries data))) = Inr cards"
  shows "handle_data pf data p = (insert_beforeend (concat cards) (hide_fallback p), None)"
  using assms by (simp add: handle_data_def renderCards_def)

text \<open>
  Where every entry has a date string the run does not fail, whatever else the entries
  lack: on both paths every selected card is built, the cards are appended to the grid
  and the placeholder is hidden.
\<close>

lemma dated_entries_render:
  assumes "ok status" and "\<not> invalid data"
    and "\<forall>e \<in> set (elements (data_entries data)). is_string (date e)"
  shows "\<exists>cards.
         map_throwing (buildCard pf) (select_latest (elements (data_entries data))) = Inr cards
         \<and> loadJournal pf (Fetch (Response status (Decoded data))) p
             = (insert_beforeend (concat cards) (hide_fallback p), None)
         \<and> loadJournal pf (Xhr (LoadEvent status (Decoded data))) p
             = (insert_beforeend (concat cards) (hide_fallback p), None)"
proof -
  from assms(3) set_select_latest [of "elements (data_entries data)"]
  have "\<forall>e \<in> set (select_latest (elements (data_entries data))). \<exists>html. buildCard pf e = Inr html"
    using buildCard_string_date [of _ pf] by blast
  then obtain cards where
    c: "map_throwing (buildCard pf) (select_latest (elements (data_entries data))) = Inr cards"
    using map_throwing_total by blast
  with assms(1,2) show ?thesis
    by (simp add: handle_data_renders)
qed

lemma untitled_card:
  \<open>buildCard plain_platform untitled_entry
     = Inr ''<li class="card"><span class="card__category">UX Research</span><h3 class="card__title"><a href="journal/entry-slug.html">undefined</a></h3><p class="card__excerpt">Short summary text.</p><div class="card__meta"><time class="card__date" datetime="2025-02-15">15 Feb 2025</time></div></li>''\<close>
  by (simp add: buildCard_def untitled_entry_def sample_entry_def formatDate_2025_02_15
      escapeHtml_def special_def)

lemma select_latest_single: "select_latest [e] = [e]"
  by (simp add: select_latest_def array_sort_def MAX_CARDS_def)

lemma buildCard_undated: "date e = Undefined \<Longrightarrow> buildCard pf e = Inl TypeError"
  by (simp add: buildCard_def formatDate_def)

lemma handle_data_undated:
  "date e = Undefined \<Longrightarrow>
   handle_data pf (JObject (EntryArray [e])) p = (hide_fallback p, Some TypeError)"
  by (simp add: handle_data_def invalid_def renderCards_def select_latest_single
      buildCard_undated)

text \<open>
  C7 (the code departs from the claim).  The claim holds of title, excerpt, category,
  url and read time, which pass through \<^verbatim>\<open>String\<close> in \<open>escapeHtml\<close> or a truthiness test.
  It fails of the date: \<open>formatDate\<close> calls \<^verbatim>\<open>iso.split\<close> on its argument without that
  coercion.  For every entry without date, a payload with that entry alone passes
  validation and, received with a success status, makes the run fail: the card is not
  built (TypeError), the grid receives nothing, and the handler of the path reports the
  failure in the placeholder that \<open>renderCards\<close> has already hidden: the generic message on
  the fetch path, ``Could not read journal data.'' on the XMLHttpRequest path.
\<close>

theorem missing_date_fails:
  "ok status \<and> date e = Undefined \<longrightarrow>
     \<not> invalid (JObject (EntryArray [e]))
     \<and> buildCard pf e = Inl TypeError
     \<and> \<not> renders pf (Fetch (Response status (Decoded (JObject (EntryArray [e])))))
     \<and> \<not> renders pf (Xhr (LoadEvent status (Decoded (JObject (EntryArray [e])))))
     \<and> loadJournal pf (Fetch (Response status (Decoded (JObject (EntryArray [e]))))) p
         = (showError ''Could not load journal entries at this time.'' (hide_fallback p), None)
     \<and> loadJournal pf (Xhr (LoadEvent status (Decoded (JObject (EntryArray [e]))))) p
         = (showError ''Could not read journal data.'' (hide_fallback p), None)"
proof
  assume h: "ok status \<and> date e = Undefined"
  have "\<not> invalid (JObject (EntryArray [e]))"
    by (simp add: invalid_def)
  moreover from h have "buildCard pf e = Inl TypeError"
    by (simp add: buildCard_undated)
  moreover from h have "\<not> renders pf (Fetch (Response status (Decoded (JObject (EntryArray [e])))))"
    "\<not> renders pf (Xhr (LoadEvent status (Decoded (JObject (EntryArray [e])))))"
    by (simp_all add: renders_def select_latest_single buildCard_undated)
  moreover from h
  have "loadJournal pf (Fetch (Response status (Decoded (JObject (EntryArray [e]))))) p
         = (showError ''Could not load journal entries at this time.'' (hide_fallback p), None)"
    "loadJournal pf (Xhr (LoadEvent status (Decoded (JObject (EntryArray [e]))))) p
         = (showError ''Could not read journal data.'' (hide_fallback p), None)"
    by (simp_all add: handle_data_undated)
  ultimately show "\<not> invalid (JObject (EntryArray [e]))
     \<and> buildCard pf e = Inl TypeError
     \<and> \<not> renders pf (Fetch (Response status (Decoded (JObject (EntryArray [e])))))
     \<and> \<not> renders pf (Xhr (LoadEvent status (Decoded (JObject (EntryArray [e])))))
     \<and> loadJournal pf (Fetch (Response status (Decoded (JObject (EntryArray [e]))))) p
         = (showError ''Could not load journal entries at this time.'' (hide_fallback p), None)
     \<and> loadJournal pf (Xhr (LoadEvent status (Decoded (JObject (EntryArray [e]))))) p
         = (showError ''Could not read journal data.'' (hide_fallback p), None)"
    by blast
qed

text \<open>
  C7 at the sample entry without its date, with status 200, on the page that shows the
  placeholder: the pages after the run on the two paths.
\<close>

theorem missing_date_fails_witness:
  \<open>ok 200
   \<and> date undated_entry = Undefined
   \<and> \<not> invalid (JObject (EntryArray [undated_entry]))
   \<and> \<not> renders plain_platform (Fetch (Response 200 (Decoded (JObject (EntryArray [undated_entry])))))
   \<and> loadJournal plain_platform (Fetch (Response 200 (Decoded (JObject (EntryArray [undated_entry]))))) loading_page
       = (\<lparr>grid = Some '''',
           fallback = Some
             \<lparr>innerHTML = ''<p>Could not load journal entries at this time.</p><p><a href="journal.html">Browse all journal entries</a>.</p>'',
              display = ''none''\<rparr>\<rparr>, None)
   \<and> loadJournal plain_platform (Xhr (LoadEvent 200 (Decoded (JObject (EntryArray [undated_entry]))))) loading_page
       = (\<lparr>grid = Some '''',
           fallback = Some
             \<lparr>innerHTML = ''<p>Could not read journal data.</p><p><a href="journal.html">Browse all journal entries</a>.</p>'',
              display = ''none''\<rparr>\<rparr>, None)\<close>
proof -
  have h: "ok 200 \<and> date undated_entry = Undefined"
    by (simp add: ok_def undated_entry_def)
  note run = missing_date_fails [of 200 undated_entry plain_platform loading_page, rule_format, OF h]
  have "showError ''Could not load journal entries at this time.'' (hide_fallback loading_page)
     = \<lparr>grid = Some '''',
           fallback = Some
             \<lparr>innerHTML = ''<p>Could not load journal entries at this time.</p><p><a href=\"journal.html\">Browse all journal entries</a>.</p>'',
              display = ''none''\<rparr>\<rparr>"
    by (simp add: showError_def hide_fallback_def loading_page_def escapeHtml_could_not_load)
  moreover have "showError ''Could not read journal data.'' (hide_fallback loading_page)
     = \<lparr>grid = Some '''',
           fallback = Some
             \<lparr>innerHTML = ''<p>Could not read journal data.</p><p><a href=\"journal.html\">Browse all journal entries</a>.</p>'',
              display = ''none''\<rparr>\<rparr>"
    by (simp add: showError_def hide_fallback_def loading_page_def escapeHtml_def special_def)
  ultimately show ?thesis
    using h run by simp
qed

subsection \<open>The fallback formatter against the locale-aware formatter\<close>




lemma newDate_intl_format [simp]:
  "newDate (pf\<lparr>intl_format := x\<rparr>) y m d = newDate pf y m d"
  by (cases y; cases m; cases d) (simp_all add: newDate_def Let_def split: option.splits)

lemma date_read_intl_format [simp]: "date_read (pf\<lparr>intl_format := x\<rparr>) s = date_read pf s"
  by (auto simp: date_read_def Let_def)

lemma fallback_format_intl_format [simp]:
  "fallback_format (pf\<lparr>intl_format := x\<rparr>) t = fallback_format pf t"
  by (simp add: fallback_format_def getDate_def getMonth_def getFullYear_def local_day_def)












end
